theory Spec2Isabelle
  imports Main
begin

section \<open>JavaScript values as the servers and the clients see them\<close>

text \<open>
  A request body is what \<open>express.json()\<close> / \<open>bodyParser.json()\<close> hands to a route: a
  JSON object. Its members are JSON values. A string is a list of characters, each
  character standing for the UTF-16 code unit of the same number (0 to 255). A number is
  identified by the text \<open>Number.prototype.toString\<close> prints for it, which together with
  its truthiness is all the code observes of a number (\<open>+0\<close> and \<open>-0\<close> both print
  \<open>0\<close>). \<open>JUndefined\<close> is the value of a member that is absent.
\<close>

datatype jsval =
    JUndefined
  | JNull
  | JBool bool
  | JNum string
  | JStr string
  | JArr "jsval list"
  | JObj "(string \<times> jsval) list"

text \<open>An exception object: its \<open>name\<close> and its \<open>message\<close>.\<close>

datatype jserror = JsError (err_name: string) (err_message: string)

text \<open>\<open>const { text } = req.body\<close>: the member, or \<open>undefined\<close> when it is absent.\<close>

definition bodyField :: "(string \<rightharpoonup> jsval) \<Rightarrow> string \<Rightarrow> jsval" where
  "bodyField body k = (case body k of None \<Rightarrow> JUndefined | Some v \<Rightarrow> v)"

text \<open>ToBoolean: what \<open>!text\<close>, \<open>a || b\<close> and \<open>a && b\<close> test.\<close>

fun truthy :: "jsval \<Rightarrow> bool" where
  "truthy JUndefined = False"
| "truthy JNull = False"
| "truthy (JBool b) = b"
| "truthy (JNum r) = (r \<noteq> ''0'' \<and> r \<noteq> ''NaN'')"
| "truthy (JStr s) = (s \<noteq> [])"
| "truthy (JArr xs) = True"
| "truthy (JObj kvs) = True"

fun typeof :: "jsval \<Rightarrow> string" where
  "typeof JUndefined = ''undefined''"
| "typeof JNull = ''object''"
| "typeof (JBool b) = ''boolean''"
| "typeof (JNum r) = ''number''"
| "typeof (JStr s) = ''string''"
| "typeof (JArr xs) = ''object''"
| "typeof (JObj kvs) = ''object''"

text \<open>
  ToString, as string concatenation (\<open>+=\<close> with a string operand) and template literals
  apply it. An array prints its elements joined by commas, \<open>undefined\<close> and \<open>null\<close>
  elements printing as nothing. A plain object prints \<open>[object Object]\<close>, unless a member
  of its own named \<open>toString\<close> hides \<open>Object.prototype.toString\<close>: a JSON value is never
  callable, \<open>valueOf\<close> returns the object itself, and the conversion throws a TypeError
  (the message is V8's).
\<close>

definition cannotConvert :: jserror where
  "cannotConvert = JsError ''TypeError'' ''Cannot convert object to primitive value''"

fun jsToString :: "jsval \<Rightarrow> jserror + string"
  and joinElements :: "jsval list \<Rightarrow> jserror + string"
  and elementToString :: "jsval \<Rightarrow> jserror + string"
where
  "jsToString JUndefined = Inr ''undefined''"
| "jsToString JNull = Inr ''null''"
| "jsToString (JBool b) = Inr (if b then ''true'' else ''false'')"
| "jsToString (JNum r) = Inr r"
| "jsToString (JStr s) = Inr s"
| "jsToString (JArr xs) = joinElements xs"
| "jsToString (JObj kvs) =
     (if ''toString'' \<in> fst ` set kvs then Inl cannotConvert else Inr ''[object Object]'')"
| "joinElements [] = Inr []"
| "joinElements [x] = elementToString x"
| "joinElements (x # y # ys) =
     (case elementToString x of
        Inl e \<Rightarrow> Inl e
      | Inr s \<Rightarrow> (case joinElements (y # ys) of Inl e \<Rightarrow> Inl e | Inr r \<Rightarrow> Inr (s @ '','' @ r)))"
| "elementToString JUndefined = Inr []"
| "elementToString JNull = Inr []"
| "elementToString (JBool b) = jsToString (JBool b)"
| "elementToString (JNum r) = jsToString (JNum r)"
| "elementToString (JStr s) = jsToString (JStr s)"
| "elementToString (JArr xs) = jsToString (JArr xs)"
| "elementToString (JObj kvs) = jsToString (JObj kvs)"

text \<open>\<open>v + s\<close> for a string \<open>s\<close>: the text of \<open>v\<close> followed by \<open>s\<close>.\<close>

definition plusString :: "jsval \<Rightarrow> string \<Rightarrow> jserror + jsval" where
  "plusString v s = (case jsToString v of Inl e \<Rightarrow> Inl e | Inr t \<Rightarrow> Inr (JStr (t @ s)))"

section \<open>The minimal Gemini proxy (backend/server.js)\<close>

text \<open>
  Lines 17 to 19: \<open>let prompt = text\<close>, then the suffix of the action is appended with
  \<open>+=\<close>; any other action leaves \<open>prompt\<close> as it is.
\<close>

definition buildPrompt :: "string \<Rightarrow> jsval \<Rightarrow> jserror + jsval" where
  "buildPrompt action text =
     (if action = ''shorten'' then plusString text '' Make it shorter and concise.''
      else if action = ''lengthen'' then plusString text '' Make it longer and elaborative.''
      else Inr text)"

text \<open>
  The SDK call \<open>modelFlash.generateContent(prompt)\<close> either rejects, or resolves to a
  result whose \<open>response.text()\<close> throws or returns the generated text.
\<close>

datatype gen_outcome = GenRejected jserror | GenResolved "jserror + string"

text \<open>What a request makes the process do besides answering: console lines, structured
  log calls and calls of the upstream provider, in the order they happen.\<close>

datatype event =
    SendingPrompt jsval
  | GenerateContent jsval
  | ReceivedResult "jserror + string"
  | AIAPIError jserror
  | Logger string string "(string \<times> jsval) list"

fun providerCalls :: "event list \<Rightarrow> jsval list" where
  "providerCalls [] = []"
| "providerCalls (GenerateContent p # es) = p # providerCalls es"
| "providerCalls (e # es) = providerCalls es"

datatype resbody = Json "(string \<times> jsval) list" | Text string

record response =
  res_status :: nat
  res_body :: resbody

text \<open>The member of a JSON response body, \<open>undefined\<close> when the body has none.\<close>

fun resMember :: "resbody \<Rightarrow> string \<Rightarrow> jsval" where
  "resMember (Json kvs) k = (case map_of kvs k of None \<Rightarrow> JUndefined | Some v \<Rightarrow> v)"
| "resMember (Text s) k = JUndefined"


text \<open>The catch block, lines 30 to 33: the error's message goes to the client as it is.\<close>

definition aiFailure :: "jserror \<Rightarrow> response" where
  "aiFailure err =
     \<lparr>res_status = 500,
      res_body = Json [(''error'', JStr (''Failed to process AI request: '' @ err_message err))]\<rparr>"

text \<open>
  The route \<open>POST /ai/:action\<close>, lines 13 to 34. The prompt is built outside the
  \<open>try\<close>: an exception there escapes the handler (\<open>Inl\<close>) and no response is written.
\<close>

definition post_ai_action ::
  "(jsval \<Rightarrow> gen_outcome) \<Rightarrow> string \<Rightarrow> (string \<rightharpoonup> jsval) \<Rightarrow> (jserror + response) \<times> event list" where
  "post_ai_action generateContent action body =
     (case buildPrompt action (bodyField body ''text'') of
        Inl e \<Rightarrow> (Inl e, [])
      | Inr prompt \<Rightarrow>
          (case generateContent prompt of
             GenRejected err \<Rightarrow>
               (Inr (aiFailure err),
                [SendingPrompt prompt, GenerateContent prompt, AIAPIError err])
           | GenResolved result \<Rightarrow>
               (case result of
                  Inl err \<Rightarrow>
                    (Inr (aiFailure err),
                     [SendingPrompt prompt, GenerateContent prompt, ReceivedResult result,
                      AIAPIError err])
                | Inr output \<Rightarrow>
                    (Inr \<lparr>res_status = 200, res_body = Json [(''result'', JStr output)]\<rparr>,
                     [SendingPrompt prompt, GenerateContent prompt, ReceivedResult result]))))"

text \<open>
  Lines 10 and 11: the model object is built once from \<open>process.env.API_KEY\<close>. The SDK is
  a parameter: given the key, it says what \<open>generateContent\<close> does with a prompt. No other
  variable of the environment is read.
\<close>

definition server_js ::
  "(string \<rightharpoonup> string) \<Rightarrow> (string option \<Rightarrow> jsval \<Rightarrow> gen_outcome) \<Rightarrow> string \<Rightarrow> (string \<rightharpoonup> jsval)
     \<Rightarrow> (jserror + response) \<times> event list" where
  "server_js env sdk action body = post_ai_action (sdk (env ''API_KEY'')) action body"

section \<open>The basic stub server (the 28-line backend/server.js)\<close>


text \<open>The dummy routes answer with a template literal; an exception of the conversion
  leaves the handler (\<open>Inl\<close>).\<close>

definition dummy_route :: "string \<Rightarrow> (string \<rightharpoonup> jsval) \<Rightarrow> jserror + response" where
  "dummy_route prefix body =
     (case jsToString (bodyField body ''text'') of
        Inl e \<Rightarrow> Inl e
      | Inr t \<Rightarrow> Inr \<lparr>res_status = 200, res_body = Json [(''result'', JStr (prefix @ t))]\<rparr>)"

definition dummy_make_shorter :: "(string \<rightharpoonup> jsval) \<Rightarrow> jserror + response" where
  "dummy_make_shorter body = dummy_route ''Shorter version of: '' body"

definition dummy_make_longer :: "(string \<rightharpoonup> jsval) \<Rightarrow> jserror + response" where
  "dummy_make_longer body = dummy_route ''Longer version of: '' body"

section \<open>The enhanced stub server (the 250-line backend/server.js)\<close>

text \<open>\<open>const NODE_ENV = process.env.NODE_ENV || 'development'\<close>: unset and empty both
  give development.\<close>

definition nodeEnv :: "(string \<rightharpoonup> string) \<Rightarrow> string" where
  "nodeEnv env =
     (case env ''NODE_ENV'' of
        None \<Rightarrow> ''development''
      | Some v \<Rightarrow> if v = [] then ''development'' else v)"

text \<open>Decimal text of a length, as \<open>Number.prototype.toString\<close> prints it.\<close>

fun decimal :: "nat \<Rightarrow> string" where
  "decimal n =
     (if n < 10 then [''0123456789'' ! n] else decimal (n div 10) @ [''0123456789'' ! (n mod 10)])"

text \<open>
  \<open>String.prototype.trim\<close> strips white space and line terminators from both ends; among
  the code units 0 to 255 these are tab, line feed, vertical tab, form feed, carriage
  return, space and no-break space.
\<close>

definition isWhiteSpace :: "char \<Rightarrow> bool" where
  "isWhiteSpace c = (of_char c \<in> {9, 10, 11, 12, 13, 32, 160 :: nat})"

definition trim :: "string \<Rightarrow> string" where
  "trim s = rev (dropWhile isWhiteSpace (rev (dropWhile isWhiteSpace s)))"

text \<open>
  Reading a property. \<open>undefined\<close> and \<open>null\<close> throw (V8's message); an object gives its
  own member; strings and arrays have a \<open>length\<close>. The code reads \<open>length\<close>, \<open>result\<close>
  and \<open>message\<close> only, which no prototype provides otherwise.
\<close>

definition cannotRead :: "string \<Rightarrow> string \<Rightarrow> jserror" where
  "cannotRead what k =
     JsError ''TypeError''
       (''Cannot read properties of '' @ what @ '' (reading '' @ [CHR 0x27] @ k @ [CHR 0x27] @ '')'')"

fun getProp :: "jsval \<Rightarrow> string \<Rightarrow> jserror + jsval" where
  "getProp JUndefined k = Inl (cannotRead ''undefined'' k)"
| "getProp JNull k = Inl (cannotRead ''null'' k)"
| "getProp (JBool b) k = Inr JUndefined"
| "getProp (JNum r) k = Inr JUndefined"
| "getProp (JStr s) k = Inr (if k = ''length'' then JNum (decimal (length s)) else JUndefined)"
| "getProp (JArr xs) k = Inr (if k = ''length'' then JNum (decimal (length xs)) else JUndefined)"
| "getProp (JObj kvs) k = Inr (case map_of kvs k of None \<Rightarrow> JUndefined | Some v \<Rightarrow> v)"

text \<open>Lines 282 to 297: the probes. \<open>now\<close> is \<open>new Date().toISOString()\<close> and
  \<open>uptime\<close> the text of \<open>process.uptime()\<close> when the body is built.\<close>

definition get_health :: "(string \<rightharpoonup> string) \<Rightarrow> string \<Rightarrow> string \<Rightarrow> response \<times> event list" where
  "get_health env now uptime =
     (\<lparr>res_status = 200,
       res_body = Json [(''status'', JStr ''healthy''), (''timestamp'', JStr now),
                        (''uptime'', JNum uptime), (''environment'', JStr (nodeEnv env))]\<rparr>,
      [])"

definition get_ready :: "string \<Rightarrow> response \<times> event list" where
  "get_ready now =
     (\<lparr>res_status = 200,
       res_body = Json [(''status'', JStr ''ready''), (''timestamp'', JStr now)]\<rparr>,
      [])"

text \<open>The three rejections of the validation middleware share their status and their
  \<open>error\<close> member.\<close>

definition invalidRequest :: "string \<Rightarrow> string \<Rightarrow> response" where
  "invalidRequest msg now =
     \<lparr>res_status = 400,
      res_body = Json [(''error'', JStr ''Invalid request''), (''message'', JStr msg),
                       (''timestamp'', JStr now)]\<rparr>"

text \<open>
  \<open>validateTextInput\<close>, lines 300 to 331, in the order of its checks. \<open>None\<close> is
  \<open>next()\<close>: the request goes on to the handler, with the body it came with.
\<close>

definition validateTextInput ::
  "string \<Rightarrow> string \<Rightarrow> (string \<rightharpoonup> jsval) \<Rightarrow> response option \<times> event list" where
  "validateTextInput now path body =
     (let text = bodyField body ''text'' in
      if \<not> truthy text then
        (Some (invalidRequest ''Text field is required'' now),
         [Logger ''WARN'' ''Missing text field'' [(''path'', JStr path)]])
      else
        (case text of
           JStr t \<Rightarrow>
             if length (trim t) = 0 then
               (Some (invalidRequest ''Text cannot be empty'' now),
                [Logger ''WARN'' ''Empty text provided'' [(''path'', JStr path)]])
             else (None, [])
         | _ \<Rightarrow>
             (Some (invalidRequest ''Text must be a string'' now),
              [Logger ''WARN'' ''Invalid text type''
                 [(''path'', JStr path), (''type'', JStr (typeof text))]])))"

text \<open>
  The object every 500 answer carries (lines 354 to 358, 382 to 386 and 409 to 413): the
  error's message in development mode, a fixed text otherwise.
\<close>

definition internalServerError :: "string \<Rightarrow> string \<Rightarrow> jserror \<Rightarrow> resbody" where
  "internalServerError mode now error =
     Json [(''error'', JStr ''Internal server error''),
           (''message'',
            JStr (if mode = ''development'' then err_message error else ''An error occurred'')),
           (''timestamp'', JStr now)]"

text \<open>
  The body of the \<open>try\<close> of a transform handler: the template literal, then the two
  lengths for the log line. Either can throw on a text that is not a string.
\<close>

definition transformTry :: "string \<Rightarrow> jsval \<Rightarrow> jserror + (string \<times> jsval)" where
  "transformTry prefix text =
     (case jsToString text of
        Inl e \<Rightarrow> Inl e
      | Inr t \<Rightarrow> (case getProp text ''length'' of Inl e \<Rightarrow> Inl e | Inr n \<Rightarrow> Inr (prefix @ t, n)))"

text \<open>
  The two handlers (lines 334 to 360 and 362 to 388) differ in their prefix and in the
  texts of their log lines only. \<open>transformCatch\<close> is their \<open>catch\<close> block, given the
  error that was thrown. The error's stack, logged beside its message, is left out of the
  log data.
\<close>

definition transformCatch ::
  "string \<Rightarrow> (string \<rightharpoonup> string) \<Rightarrow> string \<Rightarrow> jserror \<Rightarrow> response \<times> event list" where
  "transformCatch failed env now error =
     (\<lparr>res_status = 500, res_body = internalServerError (nodeEnv env) now error\<rparr>,
      [Logger ''ERROR'' failed [(''error'', JStr (err_message error))]])"

definition transformHandler ::
  "string \<Rightarrow> string \<Rightarrow> string \<Rightarrow> (string \<rightharpoonup> string) \<Rightarrow> string \<Rightarrow> (string \<rightharpoonup> jsval)
     \<Rightarrow> response \<times> event list" where
  "transformHandler prefix done failed env now body =
     (case transformTry prefix (bodyField body ''text'') of
        Inl error \<Rightarrow> transformCatch failed env now error
      | Inr (result, inputLength) \<Rightarrow>
          (\<lparr>res_status = 200,
            res_body = Json [(''success'', JBool True), (''result'', JStr result),
                             (''timestamp'', JStr now)]\<rparr>,
           [Logger ''INFO'' done
              [(''inputLength'', inputLength),
               (''outputLength'', JNum (decimal (length result)))]]))"

definition makeShorter ::
  "(string \<rightharpoonup> string) \<Rightarrow> string \<Rightarrow> (string \<rightharpoonup> jsval) \<Rightarrow> response \<times> event list" where
  "makeShorter env now body =
     transformHandler ''Shorter version of: '' ''Make-shorter request processed''
       ''Error in make-shorter endpoint'' env now body"

definition makeLonger ::
  "(string \<rightharpoonup> string) \<Rightarrow> string \<Rightarrow> (string \<rightharpoonup> jsval) \<Rightarrow> response \<times> event list" where
  "makeLonger env now body =
     transformHandler ''Longer version of: '' ''Make-longer request processed''
       ''Error in make-longer endpoint'' env now body"

text \<open>\<open>app.post(path, validateTextInput, handler)\<close>: the handler runs only when the
  middleware called \<open>next()\<close>.\<close>

definition validated ::
  "((string \<rightharpoonup> jsval) \<Rightarrow> response \<times> event list) \<Rightarrow> string \<Rightarrow> string \<Rightarrow> (string \<rightharpoonup> jsval)
     \<Rightarrow> response \<times> event list" where
  "validated handler now path body =
     (case validateTextInput now path body of
        (Some r, evs) \<Rightarrow> (r, evs)
      | (None, evs) \<Rightarrow> (case handler body of (r, evs') \<Rightarrow> (r, evs @ evs')))"

definition post_make_shorter ::
  "(string \<rightharpoonup> string) \<Rightarrow> string \<Rightarrow> string \<Rightarrow> (string \<rightharpoonup> jsval) \<Rightarrow> response \<times> event list" where
  "post_make_shorter env now path body = validated (makeShorter env now) now path body"

definition post_make_longer ::
  "(string \<rightharpoonup> string) \<Rightarrow> string \<Rightarrow> string \<Rightarrow> (string \<rightharpoonup> jsval) \<Rightarrow> response \<times> event list" where
  "post_make_longer env now path body = validated (makeLonger env now) now path body"

text \<open>
  The error-handling middleware, lines 401 to 414, which receives what a middleware
  passes to \<open>next(err)\<close> (the body parser on malformed JSON, with \<open>err.status\<close> 400).
  \<open>err.status || 500\<close>: an absent or zero status gives 500.
\<close>

definition errorMiddleware ::
  "(string \<rightharpoonup> string) \<Rightarrow> string \<Rightarrow> string \<Rightarrow> string \<Rightarrow> jserror \<Rightarrow> nat option
     \<Rightarrow> response \<times> event list" where
  "errorMiddleware env now method path err errStatus =
     (\<lparr>res_status = (case errStatus of None \<Rightarrow> 500 | Some s \<Rightarrow> if s = 0 then 500 else s),
       res_body = internalServerError (nodeEnv env) now err\<rparr>,
      [Logger ''ERROR'' ''Unhandled error''
         [(''error'', JStr (err_message err)), (''method'', JStr method), (''path'', JStr path)]])"

text \<open>
  The request logging middleware, lines 265 to 279: when the response is finished, one
  access line with the method, the path, the status and the duration.
\<close>

definition requestLogging ::
  "string \<Rightarrow> string \<Rightarrow> nat \<Rightarrow> response \<times> event list \<Rightarrow> response \<times> event list" where
  "requestLogging method path duration served =
     (case served of
        (r, evs) \<Rightarrow>
          (r, evs @ [Logger ''INFO'' ''Request completed''
                       [(''method'', JStr method), (''path'', JStr path),
                        (''status'', JNum (decimal (res_status r))),
                        (''duration'', JStr (decimal duration @ ''ms''))]]))"

subsection \<open>The process and its probes\<close>

text \<open>
  What the server process keeps between requests: its environment, read once at start
  (lines 218 to 221), and whether it is still running. There is no session and no store.
  The handler of \<open>uncaughtException\<close>, lines 445 to 451, logs the error and ends the
  process with \<open>process.exit(1)\<close>.
\<close>

record process =
  proc_env :: "string \<rightharpoonup> string"
  alive :: bool

definition uncaughtException :: "jserror \<Rightarrow> process \<Rightarrow> event list \<times> process" where
  "uncaughtException error p =
     ([Logger ''ERROR'' ''Uncaught exception'' [(''error'', JStr (err_message error))]],
      p\<lparr>alive := False\<rparr>)"

text \<open>
  A call of a probe route, with what the clock (and \<open>process.uptime()\<close>) reads when
  it is served. A process that has ended answers nothing (\<open>None\<close>); a running one hands
  the request to the route's handler, and is afterwards in the state the handler leaves it
  in. The probe handlers assign nothing, so that state is the one they found. The
  middleware ahead of the routes is not part of a probe.
\<close>

datatype probe_call = Health string string | Ready string

fun probe :: "probe_call \<Rightarrow> process \<Rightarrow> (response \<times> event list) option \<times> process" where
  "probe (Health now uptime) p =
     (if alive p then (Some (get_health (proc_env p) now uptime), p) else (None, p))"
| "probe (Ready now) p = (if alive p then (Some (get_ready now), p) else (None, p))"


section \<open>The editor clients\<close>

text \<open>
  The rich-text widget (TipTap) is a library outside the repository, so what the clients
  ask of it is a parameter. The type \<open>'e\<close> is the editor's state, document and selection
  together; the fields are the four expressions the clients evaluate on it:
  \<open>editor.state.doc.textBetween(selection.from, selection.to)\<close>,
  \<open>editor.state.selection.$from.parent.textContent\<close>,
  \<open>editor.state.selection.content().toString()\<close> and
  \<open>editor.chain().focus().insertContentAt(editor.state.selection, content).run()\<close>.
\<close>

record 'e tiptap =
  textBetweenSelection :: "'e \<Rightarrow> string"
  parentTextContent :: "'e \<Rightarrow> string"
  selectionContentString :: "'e \<Rightarrow> string"
  insertContentAtSelection :: "jsval \<Rightarrow> 'e \<Rightarrow> 'e"

datatype console_arg = ArgError jserror | ArgValue jsval

datatype timer = ClearError | ClearSuccess

text \<open>What a client does besides changing its state: the HTTP requests it sends (URL and
  JSON body), its console lines (method, first argument, further arguments) and the timers
  it starts.\<close>

datatype client_event =
    AxiosPost string "(string \<times> jsval) list"
  | Fetch string "(string \<times> jsval) list"
  | Console string string "console_arg list"
  | SetTimeout timer nat

fun isNetworkCall :: "client_event \<Rightarrow> bool" where
  "isNetworkCall (AxiosPost url b) = True"
| "isNetworkCall (Fetch url b) = True"
| "isNetworkCall (Console m s args) = False"
| "isNetworkCall (SetTimeout t ms) = False"

text \<open>\<open>a || b\<close>, and \<open>v?.k\<close>, which gives \<open>undefined\<close> where the plain read throws.\<close>

definition jsOr :: "jsval \<Rightarrow> jsval \<Rightarrow> jsval" where
  "jsOr a b = (if truthy a then a else b)"

definition optChain :: "jsval \<Rightarrow> string \<Rightarrow> jsval" where
  "optChain v k = (case getProp v k of Inl e \<Rightarrow> JUndefined | Inr x \<Rightarrow> x)"

subsection \<open>The Bootstrap client (App.js, first component)\<close>

text \<open>The component's state: the editor (\<open>null\<close> until the widget is ready) and the four
  \<open>useState\<close> cells.\<close>

record 'e app_state =
  editor :: "'e option"
  transformedText :: jsval
  loading :: bool
  error :: jsval
  success :: bool

text \<open>\<open>axios.post\<close> resolves with the response's data for a 2xx answer, and rejects
  otherwise with an error that carries the response's data when there was a response.\<close>

datatype axios_outcome = AxiosResolved jsval | AxiosRejected jserror "jsval option"

definition apiUrl :: "(string \<rightharpoonup> string) \<Rightarrow> string" where
  "apiUrl env =
     (case env ''REACT_APP_API_URL'' of
        None \<Rightarrow> ''http://localhost:5005''
      | Some v \<Rightarrow> if v = [] then ''http://localhost:5005'' else v)"

text \<open>The \<open>catch\<close> and the \<open>finally\<close> of lines 48 to 54.\<close>

definition actionFailed ::
  "'e app_state \<Rightarrow> jserror \<Rightarrow> jsval option \<Rightarrow> 'e app_state \<times> client_event list" where
  "actionFailed st err responseData =
     (let errorMsg =
            jsOr (jsOr (case responseData of None \<Rightarrow> JUndefined | Some d \<Rightarrow> optChain d ''message'')
                       (JStr (err_message err)))
                 (JStr ''Failed to process text'')
      in (st\<lparr>error := errorMsg, loading := False\<rparr>,
          [Console ''error'' ''AI action failed:'' [ArgError err]]))"

text \<open>\<open>handleAIAction\<close>, lines 24 to 55. The state is the one of the click; the editor is
  read and never written.\<close>

definition handleAIAction ::
  "'e tiptap \<Rightarrow> (string \<rightharpoonup> string) \<Rightarrow> (string \<Rightarrow> (string \<times> jsval) list \<Rightarrow> axios_outcome) \<Rightarrow> string
     \<Rightarrow> 'e app_state \<Rightarrow> 'e app_state \<times> client_event list" where
  "handleAIAction api env post action st =
     (case editor st of
        None \<Rightarrow> (st, [])
      | Some e \<Rightarrow>
          (let selectedText = parentTextContent api e in
           if selectedText = [] \<or> length (trim selectedText) = 0 then
             (st\<lparr>error := JStr ''Please select text to transform''\<rparr>, [SetTimeout ClearError 3000])
           else
             (let st1 = st\<lparr>loading := True, error := JNull, success := False\<rparr>;
                  endpoint = (if action = ''shorter'' then ''/api/make-shorter''
                              else ''/api/make-longer'');
                  url = apiUrl env @ endpoint;
                  payload = [(''text'', JStr selectedText)]
              in case post url payload of
                   AxiosResolved data \<Rightarrow>
                     (case getProp data ''result'' of
                        Inl err \<Rightarrow>
                          (case actionFailed st1 err None of
                             (st2, evs) \<Rightarrow> (st2, AxiosPost url payload # evs))
                      | Inr result \<Rightarrow>
                          if truthy result then
                            (st1\<lparr>transformedText := result, success := True, loading := False\<rparr>,
                             [AxiosPost url payload, SetTimeout ClearSuccess 3000])
                          else (st1\<lparr>loading := False\<rparr>, [AxiosPost url payload]))
                 | AxiosRejected err responseData \<Rightarrow>
                     (case actionFailed st1 err responseData of
                        (st2, evs) \<Rightarrow> (st2, AxiosPost url payload # evs)))))"

subsection \<open>The minimal client (App.js, second component)\<close>

text \<open>
  \<open>handleAIAction\<close>, lines 320 to 334. The declaration of \<open>url\<close> is commented out
  (lines 324 and 325), so evaluating the arguments of \<open>axios.post(url, ...)\<close> throws a
  ReferenceError inside the \<open>try\<close>: no request is sent and nothing is inserted.
\<close>

definition handleAIAction_minimal :: "'e tiptap \<Rightarrow> string \<Rightarrow> 'e \<Rightarrow> 'e \<times> client_event list" where
  "handleAIAction_minimal api action e =
     (let selectedText = selectionContentString api e in
      if selectedText = [] then (e, [])
      else (e, [Console ''error'' ''AI action failed:''
                  [ArgError (JsError ''ReferenceError'' ''url is not defined'')]]))"

subsection \<open>The toolbar client (the 209-line App.js)\<close>

text \<open>\<open>fetch\<close> rejects, or resolves to a response with its \<open>ok\<close> flag, its status and
  what \<open>response.json()\<close> gives.\<close>

datatype fetch_outcome = FetchRejected jserror | FetchResponse bool nat "jserror + jsval"

text \<open>
  \<open>handleAction\<close>, lines 74 to 111. \<open>e0\<close> is the editor's state at the click, \<open>e1\<close> its
  state when the response is handled: the user can go on editing while the request is
  under way, and line 104 reads \<open>editor.state.selection\<close> again.
\<close>

definition handleAction ::
  "'e tiptap \<Rightarrow> (string \<Rightarrow> (string \<times> jsval) list \<Rightarrow> fetch_outcome) \<Rightarrow> string \<Rightarrow> 'e \<Rightarrow> 'e
     \<Rightarrow> 'e \<times> client_event list" where
  "handleAction api fetch action e0 e1 =
     (let selectedText = textBetweenSelection api e0 in
      if trim selectedText = [] then (e0, [Console ''warn'' ''No text selected.'' []])
      else
        (let url = ''http://localhost:5001/ai/'' @ action;
             payload = [(''text'', JStr selectedText)]
         in case fetch url payload of
              FetchRejected err \<Rightarrow>
                (e1, [Fetch url payload, Console ''error'' ''API Error:'' [ArgError err]])
            | FetchResponse ok status json \<Rightarrow>
                if \<not> ok then
                  (e1, [Fetch url payload,
                        Console ''error'' (''API request failed with status: '' @ decimal status) []])
                else
                  (case json of
                     Inl err \<Rightarrow>
                       (e1, [Fetch url payload, Console ''error'' ''API Error:'' [ArgError err]])
                   | Inr data \<Rightarrow>
                       if truthy data \<and> truthy (optChain data ''result'') then
                         (insertContentAtSelection api (optChain data ''result'') e1,
                          [Fetch url payload, Console ''log'' ''Response from API:'' [ArgValue data]])
                       else
                         (e1, [Fetch url payload,
                               Console ''log'' ''Response from API:'' [ArgValue data],
                               Console ''error'' ''Unexpected API response structure:''
                                 [ArgValue data]]))))"

subsection \<open>A plain-text editor\<close>

text \<open>
  Modelled from the spec: the editor widget is not part of the repository. The spec's
  Selection is a half-open range \<open>[from, to)\<close> over the document's text positions, and a
  result is spliced into the document at the selection. Here the document is one block
  of text, which is also the parent block of every position.
\<close>

record plain_editor =
  doc_text :: string
  sel_from :: nat
  sel_to :: nat

definition plainSelected :: "plain_editor \<Rightarrow> string" where
  "plainSelected e = take (sel_to e - sel_from e) (drop (sel_from e) (doc_text e))"

definition plainInsert :: "jsval \<Rightarrow> plain_editor \<Rightarrow> plain_editor" where
  "plainInsert content e =
     (case content of
        JStr r \<Rightarrow>
          \<lparr>doc_text = take (sel_from e) (doc_text e) @ r @ drop (sel_to e) (doc_text e),
           sel_from = sel_from e + length r, sel_to = sel_from e + length r\<rparr>
      | _ \<Rightarrow> e)"

definition plainTiptap :: "plain_editor tiptap" where
  "plainTiptap =
     \<lparr>textBetweenSelection = plainSelected, parentTextContent = doc_text,
      selectionContentString = plainSelected, insertContentAtSelection = plainInsert\<rparr>"

section \<open>Test doubles\<close>

text \<open>A provider, an \<open>axios.post\<close> and a \<open>fetch\<close> that give the same outcome whatever
  they are asked.\<close>

definition constProvider :: "gen_outcome \<Rightarrow> string option \<Rightarrow> jsval \<Rightarrow> gen_outcome" where
  "constProvider outcome key prompt = outcome"

definition constPost :: "axios_outcome \<Rightarrow> string \<Rightarrow> (string \<times> jsval) list \<Rightarrow> axios_outcome" where
  "constPost outcome url payload = outcome"

text \<open>A handler that, when it runs, calls the provider with the text of the body.\<close>

definition callingHandler :: "(string \<rightharpoonup> jsval) \<Rightarrow> response \<times> event list" where
  "callingHandler body =
     (\<lparr>res_status = 200, res_body = Json []\<rparr>, [GenerateContent (bodyField body ''text'')])"

definition constFetch :: "fetch_outcome \<Rightarrow> string \<Rightarrow> (string \<times> jsval) list \<Rightarrow> fetch_outcome" where
  "constFetch outcome url payload = outcome"

section \<open>Trimming\<close>

lemma trim_nonempty: "trim t \<noteq> [] \<Longrightarrow> t \<noteq> []"
  by (auto simp: trim_def)

section \<open>The Gemini proxy: one call, the prompt, the round trip\<close>

text \<open>
  C1: for a request whose text is a string and whose action is shorten or lengthen, the
  Gemini proxy calls the provider exactly once, with the text followed by the suffix of
  the action, and when the provider returns the text R the response is 200 with result R.
  Non-blank texts are among the strings the theorem covers.
\<close>

theorem gemini_proxy_round_trip:
  assumes "body ''text'' = Some (JStr t)"
    and "action = ''shorten'' \<or> action = ''lengthen''"
  shows "providerCalls (snd (server_js env sdk action body)) =
           [JStr (t @ (if action = ''shorten'' then '' Make it shorter and concise.''
                       else '' Make it longer and elaborative.''))]
         \<and> (sdk (env ''API_KEY'')
               (JStr (t @ (if action = ''shorten'' then '' Make it shorter and concise.''
                           else '' Make it longer and elaborative.''))) = GenResolved (Inr R)
            \<longrightarrow> fst (server_js env sdk action body) =
                  Inr \<lparr>res_status = 200, res_body = Json [(''result'', JStr R)]\<rparr>)"
  using assms
  by (auto simp: server_js_def post_ai_action_def buildPrompt_def plusString_def bodyField_def
           split: gen_outcome.splits sum.splits)

theorem gemini_proxy_round_trip_witness:
  "providerCalls (snd (server_js [''API_KEY'' \<mapsto> ''k''] (constProvider (GenResolved (Inr ''Hi.'')))
       ''shorten'' [''text'' \<mapsto> JStr ''Hello there''])) =
     [JStr ''Hello there Make it shorter and concise.'']
   \<and> fst (server_js [''API_KEY'' \<mapsto> ''k''] (constProvider (GenResolved (Inr ''Hi.'')))
       ''shorten'' [''text'' \<mapsto> JStr ''Hello there'']) =
     Inr \<lparr>res_status = 200, res_body = Json [(''result'', JStr ''Hi.'')]\<rparr>"
  using gemini_proxy_round_trip [of "[''text'' \<mapsto> JStr ''Hello there'']" "''Hello there''" "''shorten''"
      "[''API_KEY'' \<mapsto> ''k'']" "constProvider (GenResolved (Inr ''Hi.''))" "''Hi.''"]
  by (simp add: constProvider_def)

section \<open>The prompt builder\<close>

text \<open>
  C2: the prompt is a function of the action and the text alone. For a text t, shorten
  gives t followed by " Make it shorter and concise.", lengthen gives t followed by
  " Make it longer and elaborative.", and every other action tag gives back the value it
  was given, with no error.
\<close>

theorem buildPrompt_cases:
  "buildPrompt ''shorten'' (JStr t) = Inr (JStr (t @ '' Make it shorter and concise.''))
   \<and> buildPrompt ''lengthen'' (JStr t) = Inr (JStr (t @ '' Make it longer and elaborative.''))
   \<and> (a \<noteq> ''shorten'' \<and> a \<noteq> ''lengthen'' \<longrightarrow> buildPrompt a v = Inr v)"
  by (simp add: buildPrompt_def plusString_def)

theorem buildPrompt_cases_witness:
  "buildPrompt ''shorten'' (JStr ''Hello'') = Inr (JStr ''Hello Make it shorter and concise.'')
   \<and> buildPrompt ''lengthen'' (JStr ''Hello'') = Inr (JStr ''Hello Make it longer and elaborative.'')
   \<and> buildPrompt ''translate'' (JStr ''Hello'') = Inr (JStr ''Hello'')"
  using buildPrompt_cases [of "''Hello''" "''translate''" "JStr ''Hello''"]
  by simp

section \<open>The Gemini proxy does not validate\<close>

text \<open>
  C9: in the Gemini proxy a body without the text member is not rejected. \<open>undefined\<close> is
  concatenated with the suffix, so the provider is called once with the prompt
  "undefined Make it shorter and concise." for shorten and
  "undefined Make it longer and elaborative." for lengthen, and the response that is
  written is never a 400.
\<close>

theorem gemini_proxy_missing_text:
  assumes "body ''text'' = None"
  shows "providerCalls (snd (server_js env sdk ''shorten'' body)) =
           [JStr ''undefined Make it shorter and concise.'']
         \<and> providerCalls (snd (server_js env sdk ''lengthen'' body)) =
           [JStr ''undefined Make it longer and elaborative.'']
         \<and> (\<exists>r. fst (server_js env sdk ''shorten'' body) = Inr r \<and> res_status r \<noteq> 400)
         \<and> (\<exists>r. fst (server_js env sdk ''lengthen'' body) = Inr r \<and> res_status r \<noteq> 400)"
  using assms
  by (auto simp: server_js_def post_ai_action_def buildPrompt_def plusString_def bodyField_def
        aiFailure_def split: gen_outcome.splits sum.splits)

theorem gemini_proxy_missing_text_witness:
  "server_js Map.empty (constProvider (GenResolved (Inr ''Short.''))) ''shorten'' Map.empty =
     (Inr \<lparr>res_status = 200, res_body = Json [(''result'', JStr ''Short.'')]\<rparr>,
      [SendingPrompt (JStr ''undefined Make it shorter and concise.''),
       GenerateContent (JStr ''undefined Make it shorter and concise.''),
       ReceivedResult (Inr ''Short.'')])
   \<and> providerCalls (snd (server_js Map.empty (constProvider (GenResolved (Inr ''Short.'')))
         ''shorten'' Map.empty)) = [JStr ''undefined Make it shorter and concise.'']"
  using gemini_proxy_missing_text [of Map.empty Map.empty "constProvider (GenResolved (Inr ''Short.''))"]
  by (simp add: server_js_def post_ai_action_def buildPrompt_def plusString_def bodyField_def
        constProvider_def)

section \<open>The stub servers concatenate\<close>

lemma validateTextInput_valid:
  "body ''text'' = Some (JStr t) \<Longrightarrow> trim t \<noteq> [] \<Longrightarrow> validateTextInput now path body = (None, [])"
  by (auto simp: validateTextInput_def bodyField_def Let_def dest: trim_nonempty)

text \<open>
  C10: in both stub servers the transform endpoints concatenate and call no provider.
  For a text that is a string and not blank, make-shorter answers with the result
  "Shorter version of: " followed by the text and make-longer with "Longer version of: "
  followed by the text: in the enhanced server inside the success envelope, after the
  validation, in the basic server as the only member of the body.
\<close>

theorem stub_transform_concatenates:
  assumes "body ''text'' = Some (JStr t)" and "trim t \<noteq> []"
  shows "fst (post_make_shorter env now path body) =
           \<lparr>res_status = 200,
            res_body = Json [(''success'', JBool True),
                             (''result'', JStr (''Shorter version of: '' @ t)),
                             (''timestamp'', JStr now)]\<rparr>
         \<and> fst (post_make_longer env now path body) =
           \<lparr>res_status = 200,
            res_body = Json [(''success'', JBool True),
                             (''result'', JStr (''Longer version of: '' @ t)),
                             (''timestamp'', JStr now)]\<rparr>
         \<and> providerCalls (snd (post_make_shorter env now path body)) = []
         \<and> providerCalls (snd (post_make_longer env now path body)) = []
         \<and> dummy_make_shorter body =
           Inr \<lparr>res_status = 200, res_body = Json [(''result'', JStr (''Shorter version of: '' @ t))]\<rparr>
         \<and> dummy_make_longer body =
           Inr \<lparr>res_status = 200, res_body = Json [(''result'', JStr (''Longer version of: '' @ t))]\<rparr>"
proof -
  have v: "validateTextInput now path body = (None, [])"
    using assms by (rule validateTextInput_valid)
  have f: "bodyField body ''text'' = JStr t"
    using assms(1) by (simp add: bodyField_def)
  have tr: "transformTry p (JStr t) = Inr (p @ t, JNum (decimal (length t)))" for p
    by (simp add: transformTry_def)
  show ?thesis
    by (simp add: post_make_shorter_def post_make_longer_def validated_def v makeShorter_def
          makeLonger_def transformHandler_def f tr dummy_make_shorter_def dummy_make_longer_def
          dummy_route_def del: decimal.simps)
qed

theorem stub_transform_concatenates_witness:
  "trim ''Hello world'' \<noteq> []
   \<and> fst (post_make_shorter Map.empty ''T'' ''/api/make-shorter'' [''text'' \<mapsto> JStr ''Hello world'']) =
       \<lparr>res_status = 200,
        res_body = Json [(''success'', JBool True),
                         (''result'', JStr ''Shorter version of: Hello world''),
                         (''timestamp'', JStr ''T'')]\<rparr>
   \<and> dummy_make_longer [''text'' \<mapsto> JStr ''Hello world''] =
       Inr \<lparr>res_status = 200, res_body = Json [(''result'', JStr ''Longer version of: Hello world'')]\<rparr>"
proof -
  have h: "trim ''Hello world'' \<noteq> []"
    by (simp add: trim_def isWhiteSpace_def)
  show ?thesis
    using h stub_transform_concatenates [of "[''text'' \<mapsto> JStr ''Hello world'']" "''Hello world''"
        Map.empty "''T''" "''/api/make-shorter''"]
    by simp
qed

section \<open>The validation middleware\<close>

text \<open>
  C3, as the code has it: the middleware tests the text for falsiness first. A text that
  is absent or falsy (\<open>null\<close>, \<open>false\<close>, \<open>0\<close>, the empty string) is rejected as
  "Text field is required"; a truthy text that is not a string as "Text must be a
  string"; a non-empty string that is empty after trimming as "Text cannot be empty";
  each with HTTP 400 and the error "Invalid request". A string that is not blank passes:
  the middleware answers nothing and logs nothing.
\<close>

theorem validateTextInput_classification:
  "(\<not> truthy (bodyField body ''text'') \<longrightarrow>
      validateTextInput now path body =
        (Some (invalidRequest ''Text field is required'' now),
         [Logger ''WARN'' ''Missing text field'' [(''path'', JStr path)]]))
   \<and> (truthy (bodyField body ''text'') \<and> typeof (bodyField body ''text'') \<noteq> ''string'' \<longrightarrow>
      validateTextInput now path body =
        (Some (invalidRequest ''Text must be a string'' now),
         [Logger ''WARN'' ''Invalid text type''
            [(''path'', JStr path), (''type'', JStr (typeof (bodyField body ''text'')))]]))
   \<and> (body ''text'' = Some (JStr t) \<and> t \<noteq> [] \<and> trim t = [] \<longrightarrow>
      validateTextInput now path body =
        (Some (invalidRequest ''Text cannot be empty'' now),
         [Logger ''WARN'' ''Empty text provided'' [(''path'', JStr path)]]))
   \<and> (body ''text'' = Some (JStr t) \<and> trim t \<noteq> [] \<longrightarrow>
      validateTextInput now path body = (None, []))
   \<and> (body ''text'' = None \<longrightarrow>
      fst (validateTextInput now path body) =
        Some \<lparr>res_status = 400,
              res_body = Json [(''error'', JStr ''Invalid request''),
                               (''message'', JStr ''Text field is required''),
                               (''timestamp'', JStr now)]\<rparr>)"
proof (intro conjI impI)
  assume "\<not> truthy (bodyField body ''text'')"
  then show "validateTextInput now path body =
        (Some (invalidRequest ''Text field is required'' now),
         [Logger ''WARN'' ''Missing text field'' [(''path'', JStr path)]])"
    by (simp add: validateTextInput_def)
next
  assume "truthy (bodyField body ''text'') \<and> typeof (bodyField body ''text'') \<noteq> ''string''"
  then show "validateTextInput now path body =
        (Some (invalidRequest ''Text must be a string'' now),
         [Logger ''WARN'' ''Invalid text type''
            [(''path'', JStr path), (''type'', JStr (typeof (bodyField body ''text'')))]])"
    by (cases "bodyField body ''text''") (simp_all add: validateTextInput_def)
next
  assume "body ''text'' = Some (JStr t) \<and> t \<noteq> [] \<and> trim t = []"
  then show "validateTextInput now path body =
        (Some (invalidRequest ''Text cannot be empty'' now),
         [Logger ''WARN'' ''Empty text provided'' [(''path'', JStr path)]])"
    by (simp add: validateTextInput_def bodyField_def)
next
  assume "body ''text'' = Some (JStr t) \<and> trim t \<noteq> []"
  then show "validateTextInput now path body = (None, [])"
    by (simp add: validateTextInput_valid)
next
  assume "body ''text'' = None"
  then show "fst (validateTextInput now path body) =
        Some \<lparr>res_status = 400,
              res_body = Json [(''error'', JStr ''Invalid request''),
                               (''message'', JStr ''Text field is required''),
                               (''timestamp'', JStr now)]\<rparr>"
    by (simp add: validateTextInput_def bodyField_def invalidRequest_def)
qed

theorem validateTextInput_classification_witness:
  "validateTextInput ''T'' ''/api/make-shorter'' Map.empty =
     (Some (invalidRequest ''Text field is required'' ''T''),
      [Logger ''WARN'' ''Missing text field'' [(''path'', JStr ''/api/make-shorter'')]])
   \<and> validateTextInput ''T'' ''/api/make-shorter'' [''text'' \<mapsto> JNum ''42''] =
     (Some (invalidRequest ''Text must be a string'' ''T''),
      [Logger ''WARN'' ''Invalid text type''
         [(''path'', JStr ''/api/make-shorter''), (''type'', JStr ''number'')]])
   \<and> validateTextInput ''T'' ''/api/make-shorter'' [''text'' \<mapsto> JStr ''   ''] =
     (Some (invalidRequest ''Text cannot be empty'' ''T''),
      [Logger ''WARN'' ''Empty text provided'' [(''path'', JStr ''/api/make-shorter'')]])
   \<and> validateTextInput ''T'' ''/api/make-shorter'' [''text'' \<mapsto> JStr ''Hello''] = (None, [])"
proof -
  have blank: "trim ''   '' = []" and full: "trim ''Hello'' \<noteq> []"
    by (simp_all add: trim_def isWhiteSpace_def)
  show ?thesis
    using blank full
      validateTextInput_classification [of Map.empty "''T''" "''/api/make-shorter''" "[]"]
      validateTextInput_classification [of "[''text'' \<mapsto> JNum ''42'']" "''T''" "''/api/make-shorter''" "[]"]
      validateTextInput_classification [of "[''text'' \<mapsto> JStr ''   '']" "''T''" "''/api/make-shorter''" "''   ''"]
      validateTextInput_classification [of "[''text'' \<mapsto> JStr ''Hello'']" "''T''" "''/api/make-shorter''" "''Hello''"]
    by (simp add: bodyField_def)
qed

text \<open>
  The claim as stated fails on the empty string, which is present, a string and of length
  zero after trimming, and on \<open>false\<close>, which is present and not a string: both are
  reported as a missing field.
\<close>

theorem validateTextInput_empty_string_counterexample:
  "trim '''' = []
   \<and> validateTextInput ''T'' ''/api/make-shorter'' [''text'' \<mapsto> JStr ''''] =
     (Some \<lparr>res_status = 400,
            res_body = Json [(''error'', JStr ''Invalid request''),
                             (''message'', JStr ''Text field is required''),
                             (''timestamp'', JStr ''T'')]\<rparr>,
      [Logger ''WARN'' ''Missing text field'' [(''path'', JStr ''/api/make-shorter'')]])
   \<and> validateTextInput ''T'' ''/api/make-shorter'' [''text'' \<mapsto> JBool False] =
     (Some \<lparr>res_status = 400,
            res_body = Json [(''error'', JStr ''Invalid request''),
                             (''message'', JStr ''Text field is required''),
                             (''timestamp'', JStr ''T'')]\<rparr>,
      [Logger ''WARN'' ''Missing text field'' [(''path'', JStr ''/api/make-shorter'')]])"
  by (simp add: trim_def validateTextInput_def bodyField_def invalidRequest_def)

section \<open>Validation before the handler\<close>

lemma validateTextInput_invalid:
  assumes "\<not> (\<exists>t. body ''text'' = Some (JStr t) \<and> trim t \<noteq> [])"
  shows "\<exists>msg ev. validateTextInput now path body = (Some (invalidRequest msg now), [ev])
                 \<and> providerCalls [ev] = []"
proof (cases "truthy (bodyField body ''text'')")
  case False
  then show ?thesis by (auto simp: validateTextInput_def)
next
  case True
  show ?thesis
  proof (cases "bodyField body ''text''")
    case (JStr t)
    with True assms have "trim t = []"
      by (auto simp: bodyField_def split: option.splits)
    with JStr True show ?thesis by (auto simp: validateTextInput_def)
  qed (use True in \<open>auto simp: validateTextInput_def\<close>)
qed

text \<open>
  C4, as the code has it: for every request to a transform endpoint of the enhanced stub
  server whose text is missing, not a string or blank after trimming, the response is the
  validation middleware's, with HTTP 400 and the error "Invalid request", and the log is
  the middleware's one warning. The handler is not run: whatever handler stands behind the
  middleware, one that calls a provider included, the answer and the events are the same
  and hold no provider call, and the two routes answer exactly so.
\<close>

theorem validation_precedes_handler:
  assumes "body ''text'' = None
           \<or> (\<exists>v. body ''text'' = Some v \<and> typeof v \<noteq> ''string'')
           \<or> (\<exists>t. body ''text'' = Some (JStr t) \<and> trim t = [])"
  shows "res_status (fst (validated handler now path body)) = 400
         \<and> resMember (res_body (fst (validated handler now path body))) ''error'' = JStr ''Invalid request''
         \<and> fst (validateTextInput now path body) = Some (fst (validated handler now path body))
         \<and> snd (validated handler now path body) = snd (validateTextInput now path body)
         \<and> providerCalls (snd (validated handler now path body)) = []
         \<and> post_make_shorter env now path body = validated handler now path body
         \<and> post_make_longer env now path body = validated handler now path body"
proof -
  have "\<not> (\<exists>t. body ''text'' = Some (JStr t) \<and> trim t \<noteq> [])"
    using assms by auto
  then obtain msg ev where v: "validateTextInput now path body = (Some (invalidRequest msg now), [ev])"
    and p: "providerCalls [ev] = []"
    using validateTextInput_invalid by blast
  show ?thesis
    using p by (simp add: post_make_shorter_def post_make_longer_def validated_def v invalidRequest_def)
qed

theorem validation_precedes_handler_witness:
  "validated callingHandler ''T'' ''/api/make-shorter'' Map.empty =
     (\<lparr>res_status = 400,
       res_body = Json [(''error'', JStr ''Invalid request''),
                        (''message'', JStr ''Text field is required''),
                        (''timestamp'', JStr ''T'')]\<rparr>,
      [Logger ''WARN'' ''Missing text field'' [(''path'', JStr ''/api/make-shorter'')]])
   \<and> providerCalls (snd (validated callingHandler ''T'' ''/api/make-shorter'' Map.empty)) = []
   \<and> post_make_shorter Map.empty ''T'' ''/api/make-shorter'' Map.empty =
       validated callingHandler ''T'' ''/api/make-shorter'' Map.empty
   \<and> res_status (fst (post_make_longer Map.empty ''T'' ''/api/make-longer'' [''text'' \<mapsto> JArr []])) = 400
   \<and> providerCalls (snd (validated callingHandler ''T'' ''/api/make-shorter''
        [''text'' \<mapsto> JStr ''Hello''])) = [JStr ''Hello'']"
proof -
  have ok: "trim ''Hello'' \<noteq> []"
    by (simp add: trim_def isWhiteSpace_def)
  have run: "providerCalls (snd (validated callingHandler ''T'' ''/api/make-shorter''
               [''text'' \<mapsto> JStr ''Hello''])) = [JStr ''Hello'']"
    using ok by (simp add: validated_def validateTextInput_valid callingHandler_def bodyField_def)
  have rejected: "validated callingHandler ''T'' ''/api/make-shorter'' Map.empty =
     (\<lparr>res_status = 400,
       res_body = Json [(''error'', JStr ''Invalid request''),
                        (''message'', JStr ''Text field is required''),
                        (''timestamp'', JStr ''T'')]\<rparr>,
      [Logger ''WARN'' ''Missing text field'' [(''path'', JStr ''/api/make-shorter'')]])"
    by (simp add: validated_def validateTextInput_def bodyField_def invalidRequest_def)
  show ?thesis
    using run rejected
      validation_precedes_handler [of Map.empty callingHandler "''T''" "''/api/make-shorter''" Map.empty]
      validation_precedes_handler [of "[''text'' \<mapsto> JArr []]" callingHandler "''T''" "''/api/make-longer''" Map.empty]
    by (simp add: validateTextInput_def bodyField_def invalidRequest_def)
qed

text \<open>
  The claim as stated fails on the Gemini proxy, which has no validation: a blank text
  and a number are both sent to the provider, and the response is 200.
\<close>

theorem gemini_proxy_no_validation_counterexample:
  "trim ''   '' = []
   \<and> server_js Map.empty (constProvider (GenResolved (Inr ''Longer.''))) ''lengthen''
       [''text'' \<mapsto> JStr ''   ''] =
     (Inr \<lparr>res_status = 200, res_body = Json [(''result'', JStr ''Longer.'')]\<rparr>,
      [SendingPrompt (JStr ''    Make it longer and elaborative.''),
       GenerateContent (JStr ''    Make it longer and elaborative.''),
       ReceivedResult (Inr ''Longer.'')])
   \<and> server_js Map.empty (constProvider (GenResolved (Inr ''Longer.''))) ''lengthen''
       [''text'' \<mapsto> JNum ''42''] =
     (Inr \<lparr>res_status = 200, res_body = Json [(''result'', JStr ''Longer.'')]\<rparr>,
      [SendingPrompt (JStr ''42 Make it longer and elaborative.''),
       GenerateContent (JStr ''42 Make it longer and elaborative.''),
       ReceivedResult (Inr ''Longer.'')])"
  by (simp add: trim_def isWhiteSpace_def server_js_def post_ai_action_def buildPrompt_def
        plusString_def bodyField_def constProvider_def)

section \<open>Error messages and the environment mode\<close>

text \<open>Through the validated routes the body of the \<open>try\<close> does not throw: the answer is
  200 or 400.\<close>

lemma validated_routes_no_500:
  "res_status (fst (post_make_shorter env now path body)) \<in> {200, 400}
   \<and> res_status (fst (post_make_longer env now path body)) \<in> {200, 400}"
proof (cases "\<exists>t. body ''text'' = Some (JStr t) \<and> trim t \<noteq> []")
  case True
  then obtain t where t: "body ''text'' = Some (JStr t)" "trim t \<noteq> []" by blast
  then have "validateTextInput now path body = (None, [])"
    by (rule validateTextInput_valid)
  moreover have "bodyField body ''text'' = JStr t"
    using t(1) by (simp add: bodyField_def)
  ultimately show ?thesis
    by (simp add: post_make_shorter_def post_make_longer_def validated_def makeShorter_def
          makeLonger_def transformHandler_def transformTry_def del: decimal.simps)
next
  case False
  then obtain msg ev where "validateTextInput now path body = (Some (invalidRequest msg now), [ev])"
    using validateTextInput_invalid by blast
  then show ?thesis
    by (simp add: post_make_shorter_def post_make_longer_def validated_def invalidRequest_def)
qed

text \<open>
  C5, as the code has it: for every error that the enhanced stub server answers, be it
  caught by the catch block of a transform handler or handed to the error-handling
  middleware, the response is a 500 whose message is the error's own text in development
  mode (NODE_ENV unset or development) and the fixed text "An error occurred" in every
  other mode, production included; there the whole response is the same for any two
  errors, so nothing of the error reaches the client.
\<close>

theorem internal_error_message_by_mode:
  "fst (transformCatch failed env now e) =
     \<lparr>res_status = 500,
      res_body = Json [(''error'', JStr ''Internal server error''),
                       (''message'', JStr (if nodeEnv env = ''development'' then err_message e
                                           else ''An error occurred'')),
                       (''timestamp'', JStr now)]\<rparr>
   \<and> res_body (fst (errorMiddleware env now verb path e errStatus)) =
     Json [(''error'', JStr ''Internal server error''),
           (''message'', JStr (if nodeEnv env = ''development'' then err_message e
                               else ''An error occurred'')),
           (''timestamp'', JStr now)]
   \<and> (nodeEnv env = ''development'' \<longrightarrow>
        resMember (res_body (fst (transformCatch failed env now e))) ''message'' = JStr (err_message e)
        \<and> resMember (res_body (fst (errorMiddleware env now verb path e errStatus))) ''message'' =
            JStr (err_message e))
   \<and> (nodeEnv env \<noteq> ''development'' \<longrightarrow>
        resMember (res_body (fst (transformCatch failed env now e))) ''message'' =
          JStr ''An error occurred''
        \<and> resMember (res_body (fst (errorMiddleware env now verb path e errStatus))) ''message'' =
          JStr ''An error occurred''
        \<and> fst (transformCatch failed env now e) = fst (transformCatch failed env now e')
        \<and> fst (errorMiddleware env now verb path e errStatus) =
          fst (errorMiddleware env now verb path e' errStatus))
   \<and> (env ''NODE_ENV'' = Some ''production'' \<longrightarrow> nodeEnv env \<noteq> ''development'')
   \<and> (env ''NODE_ENV'' = None \<or> env ''NODE_ENV'' = Some ''development'' \<longrightarrow>
        nodeEnv env = ''development'')"
  by (auto simp: transformCatch_def errorMiddleware_def internalServerError_def nodeEnv_def)

theorem internal_error_message_by_mode_witness:
  "fst (transformCatch ''Error in make-shorter endpoint'' [''NODE_ENV'' \<mapsto> ''production''] ''T''
          (JsError ''Error'' ''write EPIPE'')) =
     \<lparr>res_status = 500,
      res_body = Json [(''error'', JStr ''Internal server error''),
                       (''message'', JStr ''An error occurred''),
                       (''timestamp'', JStr ''T'')]\<rparr>
   \<and> fst (transformCatch ''Error in make-shorter endpoint'' Map.empty ''T''
          (JsError ''Error'' ''write EPIPE'')) =
     \<lparr>res_status = 500,
      res_body = Json [(''error'', JStr ''Internal server error''),
                       (''message'', JStr ''write EPIPE''),
                       (''timestamp'', JStr ''T'')]\<rparr>
   \<and> fst (errorMiddleware [''NODE_ENV'' \<mapsto> ''production''] ''T'' ''POST'' ''/api/make-shorter''
          (JsError ''SyntaxError'' ''Unexpected end of JSON input'') (Some 400)) =
     fst (errorMiddleware [''NODE_ENV'' \<mapsto> ''production''] ''T'' ''POST'' ''/api/make-shorter''
          (JsError ''Error'' ''request aborted'') (Some 400))
   \<and> resMember (res_body (fst (errorMiddleware Map.empty ''T'' ''POST'' ''/api/make-shorter''
          (JsError ''SyntaxError'' ''Unexpected end of JSON input'') (Some 400)))) ''message'' =
     JStr ''Unexpected end of JSON input''"
proof -
  have p: "nodeEnv [''NODE_ENV'' \<mapsto> ''production''] \<noteq> ''development''"
    and d: "nodeEnv Map.empty = ''development''"
    by (simp_all add: nodeEnv_def)
  show ?thesis
    using p d
      internal_error_message_by_mode [where failed = "''Error in make-shorter endpoint''"
        and env = "[''NODE_ENV'' \<mapsto> ''production'']" and now = "''T''"
        and e = "JsError ''Error'' ''write EPIPE''"]
      internal_error_message_by_mode [where failed = "''Error in make-shorter endpoint''"
        and env = Map.empty and now = "''T''" and e = "JsError ''Error'' ''write EPIPE''"]
      internal_error_message_by_mode [where env = "[''NODE_ENV'' \<mapsto> ''production'']" and now = "''T''"
        and verb = "''POST''" and path = "''/api/make-shorter''" and errStatus = "Some 400"
        and e = "JsError ''SyntaxError'' ''Unexpected end of JSON input''"
        and e' = "JsError ''Error'' ''request aborted''"]
      internal_error_message_by_mode [where env = Map.empty and now = "''T''"
        and verb = "''POST''" and path = "''/api/make-shorter''" and errStatus = "Some 400"
        and e = "JsError ''SyntaxError'' ''Unexpected end of JSON input''"]
    by simp
qed

text \<open>
  The claim as stated fails on the Gemini proxy, which reads no mode: with NODE_ENV set
  to production the provider's error text reaches the client.
\<close>

theorem gemini_proxy_production_leak_counterexample:
  "server_js [''NODE_ENV'' \<mapsto> ''production'', ''API_KEY'' \<mapsto> ''k'']
     (constProvider (GenRejected (JsError ''Error'' ''API key not valid''))) ''shorten''
     [''text'' \<mapsto> JStr ''Hello''] =
     (Inr \<lparr>res_status = 500,
           res_body = Json [(''error'', JStr ''Failed to process AI request: API key not valid'')]\<rparr>,
      [SendingPrompt (JStr ''Hello Make it shorter and concise.''),
       GenerateContent (JStr ''Hello Make it shorter and concise.''),
       AIAPIError (JsError ''Error'' ''API key not valid'')])"
  by (simp add: server_js_def post_ai_action_def buildPrompt_def plusString_def bodyField_def
        constProvider_def aiFailure_def)

section \<open>The clients: success, failure and the document\<close>

lemma handleAIAction_editor: "editor (fst (handleAIAction api env post action st)) = editor st"
  by (simp add: handleAIAction_def actionFailed_def Let_def
        split: option.splits axios_outcome.splits sum.splits prod.splits)

text \<open>
  C6, as the code has it, for the two clients the claim is about. The toolbar client, on
  an ok response whose JSON has a truthy result, inserts the result at the editor's
  selection, in the state \<open>e1\<close> the editor has when the response is handled: with the
  editor unchanged since the click (\<open>e1 = e0\<close>) that is the original selection. On a
  rejected request, a response that is not ok, a body that is not JSON or a result that
  is missing or falsy it leaves the editor as it is and writes the one console line
  given. The Bootstrap client never writes to the editor: on a success response with a
  truthy result it stores the result in \<open>transformedText\<close> and sets \<open>success\<close>; on a
  rejected request, or a response without data, it puts the message (the server's, else
  the error's, else "Failed to process text") in its \<open>error\<close> state.
\<close>

theorem client_success_and_failure:
  "editor (fst (handleAIAction api env post action st)) = editor st
   \<and> (editor st = Some e \<and> trim (parentTextContent api e) \<noteq> []
        \<and> post (apiUrl env @ (if action = ''shorter'' then ''/api/make-shorter'' else ''/api/make-longer''))
             [(''text'', JStr (parentTextContent api e))] = AxiosResolved data
        \<and> getProp data ''result'' = Inr r \<and> truthy r \<longrightarrow>
       handleAIAction api env post action st =
         (st\<lparr>loading := False, error := JNull, success := True, transformedText := r\<rparr>,
          [AxiosPost (apiUrl env @ (if action = ''shorter'' then ''/api/make-shorter''
                                    else ''/api/make-longer''))
             [(''text'', JStr (parentTextContent api e))],
           SetTimeout ClearSuccess 3000]))
   \<and> (editor st = Some e \<and> trim (parentTextContent api e) \<noteq> []
        \<and> post (apiUrl env @ (if action = ''shorter'' then ''/api/make-shorter'' else ''/api/make-longer''))
             [(''text'', JStr (parentTextContent api e))] = AxiosRejected err responseData \<longrightarrow>
       handleAIAction api env post action st =
         (st\<lparr>loading := False, success := False,
             error := jsOr (jsOr (case responseData of None \<Rightarrow> JUndefined
                                  | Some d \<Rightarrow> optChain d ''message'')
                                 (JStr (err_message err)))
                           (JStr ''Failed to process text'')\<rparr>,
          [AxiosPost (apiUrl env @ (if action = ''shorter'' then ''/api/make-shorter''
                                    else ''/api/make-longer''))
             [(''text'', JStr (parentTextContent api e))],
           Console ''error'' ''AI action failed:'' [ArgError err]]))
   \<and> (editor st = Some e \<and> trim (parentTextContent api e) \<noteq> []
        \<and> post (apiUrl env @ (if action = ''shorter'' then ''/api/make-shorter'' else ''/api/make-longer''))
             [(''text'', JStr (parentTextContent api e))] = AxiosResolved data
        \<and> getProp data ''result'' = Inl err \<longrightarrow>
       handleAIAction api env post action st =
         (st\<lparr>loading := False, success := False,
             error := jsOr (JStr (err_message err)) (JStr ''Failed to process text'')\<rparr>,
          [AxiosPost (apiUrl env @ (if action = ''shorter'' then ''/api/make-shorter''
                                    else ''/api/make-longer''))
             [(''text'', JStr (parentTextContent api e))],
           Console ''error'' ''AI action failed:'' [ArgError err]]))
   \<and> (trim (textBetweenSelection api e0) \<noteq> []
        \<and> fetch (''http://localhost:5001/ai/'' @ act) [(''text'', JStr (textBetweenSelection api e0))] =
            FetchResponse True status (Inr fdata)
        \<and> truthy fdata \<and> truthy (optChain fdata ''result'') \<longrightarrow>
       handleAction api fetch act e0 e1 =
         (insertContentAtSelection api (optChain fdata ''result'') e1,
          [Fetch (''http://localhost:5001/ai/'' @ act) [(''text'', JStr (textBetweenSelection api e0))],
           Console ''log'' ''Response from API:'' [ArgValue fdata]]))
   \<and> (trim (textBetweenSelection api e0) \<noteq> []
        \<and> fetch (''http://localhost:5001/ai/'' @ act) [(''text'', JStr (textBetweenSelection api e0))] =
            FetchRejected ferr \<longrightarrow>
       handleAction api fetch act e0 e1 =
         (e1,
          [Fetch (''http://localhost:5001/ai/'' @ act) [(''text'', JStr (textBetweenSelection api e0))],
           Console ''error'' ''API Error:'' [ArgError ferr]]))
   \<and> (trim (textBetweenSelection api e0) \<noteq> []
        \<and> fetch (''http://localhost:5001/ai/'' @ act) [(''text'', JStr (textBetweenSelection api e0))] =
            FetchResponse False status json \<longrightarrow>
       handleAction api fetch act e0 e1 =
         (e1,
          [Fetch (''http://localhost:5001/ai/'' @ act) [(''text'', JStr (textBetweenSelection api e0))],
           Console ''error'' (''API request failed with status: '' @ decimal status) []]))
   \<and> (trim (textBetweenSelection api e0) \<noteq> []
        \<and> fetch (''http://localhost:5001/ai/'' @ act) [(''text'', JStr (textBetweenSelection api e0))] =
            FetchResponse True status (Inl ferr) \<longrightarrow>
       handleAction api fetch act e0 e1 =
         (e1,
          [Fetch (''http://localhost:5001/ai/'' @ act) [(''text'', JStr (textBetweenSelection api e0))],
           Console ''error'' ''API Error:'' [ArgError ferr]]))
   \<and> (trim (textBetweenSelection api e0) \<noteq> []
        \<and> fetch (''http://localhost:5001/ai/'' @ act) [(''text'', JStr (textBetweenSelection api e0))] =
            FetchResponse True status (Inr fdata)
        \<and> \<not> (truthy fdata \<and> truthy (optChain fdata ''result'')) \<longrightarrow>
       handleAction api fetch act e0 e1 =
         (e1,
          [Fetch (''http://localhost:5001/ai/'' @ act) [(''text'', JStr (textBetweenSelection api e0))],
           Console ''log'' ''Response from API:'' [ArgValue fdata],
           Console ''error'' ''Unexpected API response structure:'' [ArgValue fdata]]))"
proof -
  have a: "editor (fst (handleAIAction api env post action st)) = editor st"
    by (rule handleAIAction_editor)
  have tn: "trim [] = []"
    by (simp add: trim_def)
  show ?thesis
    using a
    by (auto simp: handleAIAction_def actionFailed_def handleAction_def Let_def jsOr_def tn
          simp del: decimal.simps)
qed

theorem client_success_and_failure_witness:
  "handleAction plainTiptap
     (constFetch (FetchResponse True 200 (Inr (JObj [(''result'', JStr ''Hi'')])))) ''shorten''
     \<lparr>doc_text = ''Hello world'', sel_from = 0, sel_to = 5\<rparr>
     \<lparr>doc_text = ''Hello world'', sel_from = 0, sel_to = 5\<rparr> =
     (\<lparr>doc_text = ''Hi world'', sel_from = 2, sel_to = 2\<rparr>,
      [Fetch ''http://localhost:5001/ai/shorten'' [(''text'', JStr ''Hello'')],
       Console ''log'' ''Response from API:'' [ArgValue (JObj [(''result'', JStr ''Hi'')])]])
   \<and> handleAction plainTiptap
       (constFetch (FetchRejected (JsError ''TypeError'' ''Failed to fetch''))) ''shorten''
       \<lparr>doc_text = ''Hello world'', sel_from = 0, sel_to = 5\<rparr>
       \<lparr>doc_text = ''Hello world!'', sel_from = 12, sel_to = 12\<rparr> =
     (\<lparr>doc_text = ''Hello world!'', sel_from = 12, sel_to = 12\<rparr>,
      [Fetch ''http://localhost:5001/ai/shorten'' [(''text'', JStr ''Hello'')],
       Console ''error'' ''API Error:'' [ArgError (JsError ''TypeError'' ''Failed to fetch'')]])
   \<and> handleAIAction plainTiptap Map.empty
       (constPost (AxiosRejected (JsError ''AxiosError'' ''Request failed with status code 500'')
          (Some (JObj [(''error'', JStr ''Internal server error''),
                       (''message'', JStr ''An error occurred'')]))))
       ''shorter''
       \<lparr>editor = Some \<lparr>doc_text = ''Hello world'', sel_from = 0, sel_to = 5\<rparr>,
        transformedText = JStr [], loading = False, error = JNull, success = False\<rparr> =
     (\<lparr>editor = Some \<lparr>doc_text = ''Hello world'', sel_from = 0, sel_to = 5\<rparr>,
       transformedText = JStr [], loading = False, error = JStr ''An error occurred'',
       success = False\<rparr>,
      [AxiosPost ''http://localhost:5005/api/make-shorter'' [(''text'', JStr ''Hello world'')],
       Console ''error'' ''AI action failed:''
         [ArgError (JsError ''AxiosError'' ''Request failed with status code 500'')]])"
proof -
  have sel: "textBetweenSelection plainTiptap \<lparr>doc_text = ''Hello world'', sel_from = 0, sel_to = 5\<rparr> =
               ''Hello''"
    by (simp add: plainTiptap_def plainSelected_def)
  have par: "parentTextContent plainTiptap \<lparr>doc_text = ''Hello world'', sel_from = 0, sel_to = 5\<rparr> =
               ''Hello world''"
    by (simp add: plainTiptap_def)
  have tr: "trim ''Hello'' \<noteq> []" "trim ''Hello world'' \<noteq> []"
    by (simp_all add: trim_def isWhiteSpace_def)
  have ins: "insertContentAtSelection plainTiptap (JStr ''Hi'')
               \<lparr>doc_text = ''Hello world'', sel_from = 0, sel_to = 5\<rparr> =
             \<lparr>doc_text = ''Hi world'', sel_from = 2, sel_to = 2\<rparr>"
    by (simp add: plainTiptap_def plainInsert_def)
  show ?thesis
    using sel par tr ins
      client_success_and_failure [where api = plainTiptap
        and fetch = "constFetch (FetchResponse True 200 (Inr (JObj [(''result'', JStr ''Hi'')])))"
        and act = "''shorten''" and status = 200 and fdata = "JObj [(''result'', JStr ''Hi'')]"
        and ?e0.0 = "\<lparr>doc_text = ''Hello world'', sel_from = 0, sel_to = 5\<rparr>"
        and ?e1.0 = "\<lparr>doc_text = ''Hello world'', sel_from = 0, sel_to = 5\<rparr>"]
      client_success_and_failure [where api = plainTiptap
        and fetch = "constFetch (FetchRejected (JsError ''TypeError'' ''Failed to fetch''))"
        and act = "''shorten''" and ferr = "JsError ''TypeError'' ''Failed to fetch''"
        and ?e0.0 = "\<lparr>doc_text = ''Hello world'', sel_from = 0, sel_to = 5\<rparr>"
        and ?e1.0 = "\<lparr>doc_text = ''Hello world!'', sel_from = 12, sel_to = 12\<rparr>"]
      client_success_and_failure [where api = plainTiptap and env = Map.empty
        and post = "constPost (AxiosRejected (JsError ''AxiosError'' ''Request failed with status code 500'')
             (Some (JObj [(''error'', JStr ''Internal server error''),
                          (''message'', JStr ''An error occurred'')])))"
        and action = "''shorter''"
        and st = "\<lparr>editor = Some \<lparr>doc_text = ''Hello world'', sel_from = 0, sel_to = 5\<rparr>,
           transformedText = JStr [], loading = False, error = JNull, success = False\<rparr>"
        and e = "\<lparr>doc_text = ''Hello world'', sel_from = 0, sel_to = 5\<rparr>"
        and err = "JsError ''AxiosError'' ''Request failed with status code 500''"
        and responseData = "Some (JObj [(''error'', JStr ''Internal server error''),
                          (''message'', JStr ''An error occurred'')])"]
    by (simp add: constFetch_def constPost_def optChain_def jsOr_def apiUrl_def)
qed

text \<open>
  The claim as stated fails four times. After a success response the Bootstrap client's
  document is what it was, the result being in \<open>transformedText\<close>. The toolbar client,
  when the selection has moved from "Hello" to "world" while the request was under way,
  replaces "world", which was never sent. On a 500 response the toolbar client's only
  effect is a console line: nothing is shown to the user. And on a success response whose
  result is the empty string the toolbar client splices nothing: the selection stays.
\<close>

theorem client_splice_counterexample:
  "handleAIAction plainTiptap Map.empty
     (constPost (AxiosResolved (JObj [(''success'', JBool True),
                                      (''result'', JStr ''Shorter version of: Hello world''),
                                      (''timestamp'', JStr ''T'')])))
     ''shorter''
     \<lparr>editor = Some \<lparr>doc_text = ''Hello world'', sel_from = 0, sel_to = 5\<rparr>,
      transformedText = JStr [], loading = False, error = JNull, success = False\<rparr> =
   (\<lparr>editor = Some \<lparr>doc_text = ''Hello world'', sel_from = 0, sel_to = 5\<rparr>,
     transformedText = JStr ''Shorter version of: Hello world'', loading = False, error = JNull,
     success = True\<rparr>,
    [AxiosPost ''http://localhost:5005/api/make-shorter'' [(''text'', JStr ''Hello world'')],
     SetTimeout ClearSuccess 3000])
   \<and> handleAction plainTiptap
       (constFetch (FetchResponse True 200 (Inr (JObj [(''result'', JStr ''Hi'')])))) ''shorten''
       \<lparr>doc_text = ''Hello world'', sel_from = 0, sel_to = 5\<rparr>
       \<lparr>doc_text = ''Hello world'', sel_from = 6, sel_to = 11\<rparr> =
     (\<lparr>doc_text = ''Hello Hi'', sel_from = 8, sel_to = 8\<rparr>,
      [Fetch ''http://localhost:5001/ai/shorten'' [(''text'', JStr ''Hello'')],
       Console ''log'' ''Response from API:'' [ArgValue (JObj [(''result'', JStr ''Hi'')])]])
   \<and> handleAction plainTiptap
       (constFetch (FetchResponse False 500
          (Inr (JObj [(''error'', JStr ''Failed to process AI request: quota exceeded'')]))))
       ''shorten''
       \<lparr>doc_text = ''Hello world'', sel_from = 0, sel_to = 5\<rparr>
       \<lparr>doc_text = ''Hello world'', sel_from = 0, sel_to = 5\<rparr> =
     (\<lparr>doc_text = ''Hello world'', sel_from = 0, sel_to = 5\<rparr>,
      [Fetch ''http://localhost:5001/ai/shorten'' [(''text'', JStr ''Hello'')],
       Console ''error'' ''API request failed with status: 500'' []])
   \<and> handleAction plainTiptap
       (constFetch (FetchResponse True 200 (Inr (JObj [(''result'', JStr [])])))) ''shorten''
       \<lparr>doc_text = ''Hello world'', sel_from = 0, sel_to = 5\<rparr>
       \<lparr>doc_text = ''Hello world'', sel_from = 0, sel_to = 5\<rparr> =
     (\<lparr>doc_text = ''Hello world'', sel_from = 0, sel_to = 5\<rparr>,
      [Fetch ''http://localhost:5001/ai/shorten'' [(''text'', JStr ''Hello'')],
       Console ''log'' ''Response from API:'' [ArgValue (JObj [(''result'', JStr [])])],
       Console ''error'' ''Unexpected API response structure:''
         [ArgValue (JObj [(''result'', JStr [])])]])"
  by (simp add: handleAIAction_def handleAction_def plainTiptap_def plainSelected_def plainInsert_def
        trim_def isWhiteSpace_def apiUrl_def constPost_def constFetch_def optChain_def Let_def)

section \<open>The toolbar client: a blank selection\<close>

text \<open>
  C7, as the code has it, for the toolbar client: when the text of the current selection
  is empty or white space only, the client sends no request; it writes the warning
  "No text selected." to the console and does nothing else, so the editor is unchanged
  and nothing is shown to the user. The guard is what holds the request back: with any
  other selection exactly one request is sent.
\<close>

theorem blank_selection_no_request:
  "(trim (textBetweenSelection api e0) = [] \<longrightarrow>
      handleAction api fetch act e0 e1 = (e0, [Console ''warn'' ''No text selected.'' []])
      \<and> filter isNetworkCall (snd (handleAction api fetch act e0 e1)) = [])
   \<and> (trim (textBetweenSelection api e0) \<noteq> [] \<longrightarrow>
      filter isNetworkCall (snd (handleAction api fetch act e0 e1)) =
        [Fetch (''http://localhost:5001/ai/'' @ act) [(''text'', JStr (textBetweenSelection api e0))]])"
  by (auto simp: handleAction_def Let_def split: fetch_outcome.splits sum.splits
        simp del: decimal.simps)

theorem blank_selection_no_request_witness:
  "trim (textBetweenSelection plainTiptap \<lparr>doc_text = ''Hello   world'', sel_from = 5, sel_to = 8\<rparr>) = []
   \<and> handleAction plainTiptap (constFetch (FetchRejected (JsError ''TypeError'' ''Failed to fetch'')))
       ''lengthen'' \<lparr>doc_text = ''Hello   world'', sel_from = 5, sel_to = 8\<rparr>
       \<lparr>doc_text = ''Hello   world'', sel_from = 5, sel_to = 8\<rparr> =
     (\<lparr>doc_text = ''Hello   world'', sel_from = 5, sel_to = 8\<rparr>,
      [Console ''warn'' ''No text selected.'' []])
   \<and> filter isNetworkCall
        (snd (handleAction plainTiptap (constFetch (FetchRejected (JsError ''TypeError'' ''Failed to fetch'')))
                ''lengthen'' \<lparr>doc_text = ''Hello   world'', sel_from = 0, sel_to = 5\<rparr>
                \<lparr>doc_text = ''Hello   world'', sel_from = 0, sel_to = 5\<rparr>)) =
     [Fetch ''http://localhost:5001/ai/lengthen'' [(''text'', JStr ''Hello'')]]"
proof -
  have b: "trim (textBetweenSelection plainTiptap
                   \<lparr>doc_text = ''Hello   world'', sel_from = 5, sel_to = 8\<rparr>) = []"
    by (simp add: plainTiptap_def plainSelected_def trim_def isWhiteSpace_def)
  have s: "textBetweenSelection plainTiptap \<lparr>doc_text = ''Hello   world'', sel_from = 0, sel_to = 5\<rparr> =
             ''Hello''"
    by (simp add: plainTiptap_def plainSelected_def)
  have n: "trim ''Hello'' \<noteq> []"
    by (simp add: trim_def isWhiteSpace_def)
  show ?thesis
    using b s n
      blank_selection_no_request [where api = plainTiptap
        and fetch = "constFetch (FetchRejected (JsError ''TypeError'' ''Failed to fetch''))"
        and act = "''lengthen''"
        and ?e0.0 = "\<lparr>doc_text = ''Hello   world'', sel_from = 5, sel_to = 8\<rparr>"
        and ?e1.0 = "\<lparr>doc_text = ''Hello   world'', sel_from = 5, sel_to = 8\<rparr>"]
      blank_selection_no_request [where api = plainTiptap
        and fetch = "constFetch (FetchRejected (JsError ''TypeError'' ''Failed to fetch''))"
        and act = "''lengthen''"
        and ?e0.0 = "\<lparr>doc_text = ''Hello   world'', sel_from = 0, sel_to = 5\<rparr>"
        and ?e1.0 = "\<lparr>doc_text = ''Hello   world'', sel_from = 0, sel_to = 5\<rparr>"]
    by simp
qed

text \<open>
  The claim as stated fails on the toolbar client: with a selection that is one space,
  the only effect is a console warning; no error is surfaced to the user.
\<close>

theorem toolbar_client_blank_selection_counterexample:
  "trim (textBetweenSelection plainTiptap \<lparr>doc_text = ''Hello world'', sel_from = 5, sel_to = 6\<rparr>) = []
   \<and> handleAction plainTiptap
       (constFetch (FetchResponse True 200 (Inr (JObj [(''result'', JStr ''Hi'')])))) ''shorten''
       \<lparr>doc_text = ''Hello world'', sel_from = 5, sel_to = 6\<rparr>
       \<lparr>doc_text = ''Hello world'', sel_from = 5, sel_to = 6\<rparr> =
     (\<lparr>doc_text = ''Hello world'', sel_from = 5, sel_to = 6\<rparr>,
      [Console ''warn'' ''No text selected.'' []])"
  by (simp add: handleAction_def plainTiptap_def plainSelected_def trim_def isWhiteSpace_def)

text \<open>
  The Bootstrap client is not part of the theorem above. Its guard tests the text of the
  block the selection starts in, not the text of the selection, and that text is what it
  posts: with an empty selection inside a paragraph that has text, a request is sent.
\<close>

lemma handleAIAction_posts_parent_block:
  assumes "editor st = Some e" and "trim (parentTextContent api e) \<noteq> []"
  shows "filter isNetworkCall (snd (handleAIAction api env post action st)) =
           [AxiosPost (apiUrl env @ (if action = ''shorter'' then ''/api/make-shorter''
                                     else ''/api/make-longer''))
              [(''text'', JStr (parentTextContent api e))]]"
proof -
  have "parentTextContent api e \<noteq> []"
    using assms(2) by (rule trim_nonempty)
  then show ?thesis
    using assms
    by (auto simp: handleAIAction_def actionFailed_def Let_def
          split: axios_outcome.splits sum.splits)
qed

lemma handleAIAction_empty_selection_example:
  "textBetweenSelection plainTiptap \<lparr>doc_text = ''Hello world'', sel_from = 3, sel_to = 3\<rparr> = []
   \<and> snd (handleAIAction plainTiptap Map.empty (constPost (AxiosResolved (JObj []))) ''shorter''
        \<lparr>editor = Some \<lparr>doc_text = ''Hello world'', sel_from = 3, sel_to = 3\<rparr>,
         transformedText = JStr [], loading = False, error = JNull, success = False\<rparr>) =
     [AxiosPost ''http://localhost:5005/api/make-shorter'' [(''text'', JStr ''Hello world'')]]"
  by (simp add: handleAIAction_def plainTiptap_def plainSelected_def trim_def isWhiteSpace_def
        apiUrl_def constPost_def Let_def)

section \<open>The probes\<close>





text \<open>Once the process has ended, a probe is not answered.\<close>

lemma probe_after_exit:
  "fst (probe c (snd (uncaughtException err p))) = None"
  by (cases c) (simp_all add: uncaughtException_def)


end
